theory Spec2Isabelle
  imports Complex_Main
begin

section \<open>Python values, exceptions and the string operations the agent uses\<close>

text \<open>
  The agent threads one dictionary through plan, execute, validate and route. Its plan,
  page snapshot and verdicts are dynamically typed (they come from JSON text or from the
  browser tools), so they are modelled as Python values. Strings are sequences of
  characters with code points below 256; case mapping and whitespace are Python's on
  those code points.
\<close>

datatype pyfloat = Finite rat | PosInf | NegInf | NaN

datatype pyval =
    PNone
  | PBool bool
  | PInt int
  | PFloat pyfloat
  | PStr string
  | PList "pyval list"
  | PDict "(pyval \<times> pyval) list"

text \<open>Every raise is a value; the string is what \<open>str(e)\<close> gives.\<close>

datatype pyexn =
    AttributeError string
  | TypeError string
  | KeyError string
  | IndexError string
  | ValueError string
  | CollaboratorError string

fun exn_str :: "pyexn \<Rightarrow> string" where
  "exn_str (AttributeError m) = m"
| "exn_str (TypeError m) = m"
| "exn_str (KeyError m) = m"
| "exn_str (IndexError m) = m"
| "exn_str (ValueError m) = m"
| "exn_str (CollaboratorError m) = m"

definition and_then :: "pyexn + 'a \<Rightarrow> ('a \<Rightarrow> pyexn + 'b) \<Rightarrow> pyexn + 'b" where
  "and_then m f = (case m of Inl e \<Rightarrow> Inl e | Inr v \<Rightarrow> f v)"

fun type_name :: "pyval \<Rightarrow> string" where
  "type_name PNone = ''NoneType''"
| "type_name (PBool _) = ''bool''"
| "type_name (PInt _) = ''int''"
| "type_name (PFloat _) = ''float''"
| "type_name (PStr _) = ''str''"
| "type_name (PList _) = ''list''"
| "type_name (PDict _) = ''dict''"

abbreviation sq :: char where "sq \<equiv> CHR 0x27"

abbreviation dq :: char where "dq \<equiv> CHR 0x22"

abbreviation nl :: char where "nl \<equiv> CHR 0x0A"

definition no_attribute :: "pyval \<Rightarrow> string \<Rightarrow> pyexn" where
  "no_attribute v a =
     AttributeError ([sq] @ type_name v @ [sq] @ '' object has no attribute '' @ [sq] @ a @ [sq])"

text \<open>Truth value of a Python object, as \<open>if x\<close>, \<open>not x\<close> and \<open>x or y\<close> test it.\<close>

fun truthy :: "pyval \<Rightarrow> bool" where
  "truthy PNone = False"
| "truthy (PBool b) = b"
| "truthy (PInt i) = (i \<noteq> 0)"
| "truthy (PFloat f) = (f \<noteq> Finite 0)"
| "truthy (PStr s) = (s \<noteq> [])"
| "truthy (PList xs) = (xs \<noteq> [])"
| "truthy (PDict kvs) = (kvs \<noteq> [])"

text \<open>\<open>d.get(key, default)\<close>: only a dict has the method. The first binding of a key wins.\<close>

fun py_get :: "pyval \<Rightarrow> string \<Rightarrow> pyval \<Rightarrow> pyexn + pyval" where
  "py_get (PDict kvs) k d = Inr (case map_of kvs (PStr k) of None \<Rightarrow> d | Some v \<Rightarrow> v)"
| "py_get v k d = Inl (no_attribute v ''get'')"

text \<open>\<open>len(x)\<close>: strings, lists and dicts have a length, the other values raise.\<close>

fun py_len :: "pyval \<Rightarrow> pyexn + int" where
  "py_len (PStr s) = Inr (int (length s))"
| "py_len (PList xs) = Inr (int (length xs))"
| "py_len (PDict kvs) = Inr (int (length (remdups (map fst kvs))))"
| "py_len v = Inl (TypeError (''object of type '' @ [sq] @ type_name v @ [sq] @ '' has no len()''))"

subsection \<open>Strings\<close>

text \<open>\<open>str.lower()\<close>: the letters A to Z, and the capital letters of Latin-1 (not the sign at 215).\<close>

definition lower_char :: "char \<Rightarrow> char" where
  "lower_char c =
     (let n = (of_char c :: nat)
      in if (65 \<le> n \<and> n \<le> 90) \<or> (192 \<le> n \<and> n \<le> 222 \<and> n \<noteq> 215) then char_of (n + 32)
         else c)"

definition py_lower :: "string \<Rightarrow> string" where
  "py_lower s = map lower_char s"

fun starts_with :: "string \<Rightarrow> string \<Rightarrow> bool" where
  "starts_with s [] = True"
| "starts_with [] (p # ps) = False"
| "starts_with (c # cs) (p # ps) = (c = p \<and> starts_with cs ps)"

text \<open>\<open>sub in s\<close> on strings: \<open>sub\<close> occurs in \<open>s\<close> as a contiguous run.\<close>

fun py_in :: "string \<Rightarrow> string \<Rightarrow> bool" where
  "py_in sub [] = (sub = [])"
| "py_in sub (c # cs) = (starts_with (c # cs) sub \<or> py_in sub cs)"

text \<open>The characters that \<open>str.split()\<close> and \<open>str.strip()\<close> treat as whitespace.\<close>

definition is_space :: "char \<Rightarrow> bool" where
  "is_space c =
     (let n = (of_char c :: nat)
      in n = 32 \<or> (9 \<le> n \<and> n \<le> 13) \<or> (28 \<le> n \<and> n \<le> 31) \<or> n = 133 \<or> n = 160)"

definition py_strip :: "string \<Rightarrow> string" where
  "py_strip s = rev (dropWhile is_space (rev (dropWhile is_space s)))"

text \<open>\<open>s.strip(chars)\<close>: drops leading and trailing characters that occur in \<open>chars\<close>.\<close>

definition py_strip_chars :: "string \<Rightarrow> string \<Rightarrow> string" where
  "py_strip_chars chars s =
     rev (dropWhile (\<lambda>c. c \<in> set chars) (rev (dropWhile (\<lambda>c. c \<in> set chars) s)))"

text \<open>\<open>s.split()\<close>: the maximal runs of non-whitespace; \<open>w\<close> is the word being read.\<close>

fun split_ws :: "string \<Rightarrow> string \<Rightarrow> string list" where
  "split_ws w [] = (if w = [] then [] else [w])"
| "split_ws w (c # cs) =
     (if is_space c then (if w = [] then split_ws [] cs else w # split_ws [] cs)
      else split_ws (w @ [c]) cs)"

definition py_split :: "string \<Rightarrow> string list" where
  "py_split s = split_ws [] s"

text \<open>\<open>s.replace(old, new)\<close> for a one-character \<open>old\<close>.\<close>

definition py_replace_char :: "char \<Rightarrow> string \<Rightarrow> string \<Rightarrow> string" where
  "py_replace_char old new s = concat (map (\<lambda>c. if c = old then new else [c]) s)"

text \<open>Decimal text of an integer, as an f-string prints it.\<close>

fun digits_of :: "nat \<Rightarrow> string" where
  "digits_of n = (if n < 10 then [char_of (48 + n)] else digits_of (n div 10) @ [char_of (48 + n mod 10)])"

definition show_int :: "int \<Rightarrow> string" where
  "show_int i = (if i < 0 then ''-'' @ digits_of (nat (- i)) else digits_of (nat i))"

subsection \<open>Subscripting and iteration\<close>

fun as_index :: "pyval \<Rightarrow> int option" where
  "as_index (PInt i) = Some i"
| "as_index (PBool b) = Some (if b then 1 else 0)"
| "as_index v = None"

text \<open>\<open>xs[i]\<close> on a list or string: \<open>-1\<close> is the last position; outside both ranges it raises.\<close>

definition seq_index :: "'a list \<Rightarrow> int \<Rightarrow> string \<Rightarrow> pyexn + 'a" where
  "seq_index xs i what =
     (if 0 \<le> i \<and> i < int (length xs) then Inr (xs ! nat i)
      else if i < 0 \<and> - int (length xs) \<le> i then Inr (xs ! nat (int (length xs) + i))
      else Inl (IndexError (what @ '' index out of range'')))"

fun hashable :: "pyval \<Rightarrow> bool" where
  "hashable (PList xs) = False"
| "hashable (PDict kvs) = False"
| "hashable v = True"

text \<open>The text of a \<open>KeyError\<close>: the key as Python prints it.\<close>

fun key_text :: "pyval \<Rightarrow> string" where
  "key_text (PStr n) = [sq] @ n @ [sq]"
| "key_text (PInt i) = show_int i"
| "key_text (PBool b) = (if b then ''True'' else ''False'')"
| "key_text PNone = ''None''"
| "key_text v = type_name v"

text \<open>
  \<open>x[k]\<close>. All dicts of the program have string keys (JSON objects and dict literals);
  keys are compared structurally.
\<close>

fun py_getitem :: "pyval \<Rightarrow> pyval \<Rightarrow> pyexn + pyval" where
  "py_getitem (PDict kvs) k =
     (if \<not> hashable k then Inl (TypeError (''unhashable type: '' @ [sq] @ type_name k @ [sq]))
      else case map_of kvs k of
             None \<Rightarrow> Inl (KeyError (key_text k))
           | Some v \<Rightarrow> Inr v)"
| "py_getitem (PList xs) k =
     (case as_index k of
        None \<Rightarrow> Inl (TypeError (''list indices must be integers or slices, not '' @ type_name k))
      | Some i \<Rightarrow> seq_index xs i ''list'')"
| "py_getitem (PStr s) k =
     (case as_index k of
        None \<Rightarrow> Inl (TypeError (''string indices must be integers, not '' @ [sq] @ type_name k @ [sq]))
      | Some i \<Rightarrow> and_then (seq_index s i ''string'') (\<lambda>c. Inr (PStr [c])))"
| "py_getitem v k = Inl (TypeError ([sq] @ type_name v @ [sq] @ '' object is not subscriptable''))"

text \<open>The items a \<open>for\<close> loop or a comprehension draws from a value.\<close>

fun py_iter :: "pyval \<Rightarrow> pyexn + pyval list" where
  "py_iter (PList xs) = Inr xs"
| "py_iter (PStr s) = Inr (map (\<lambda>c. PStr [c]) s)"
| "py_iter (PDict kvs) = Inr (remdups (map fst kvs))"
| "py_iter v = Inl (TypeError ([sq] @ type_name v @ [sq] @ '' object is not iterable''))"

text \<open>A comprehension \<open>[f(x) for x in xs]\<close>: stops at the first raise.\<close>

fun map_exn :: "('a \<Rightarrow> pyexn + 'b) \<Rightarrow> 'a list \<Rightarrow> pyexn + 'b list" where
  "map_exn f [] = Inr []"
| "map_exn f (x # xs) = and_then (f x) (\<lambda>y. and_then (map_exn f xs) (\<lambda>ys. Inr (y # ys)))"

subsection \<open>The runtime and the collaborators\<close>

text \<open>
  Library functions of the Python runtime that the agent calls and that are not part of
  the repository are parameters: \<open>str()\<close> and \<open>int()\<close>, \<open>json.loads\<close> (\<open>None\<close> when it
  raises), \<open>json.dumps(_, default=str)\<close>, and the search for the regular expression of
  \<open>extract_json\<close> (the matched text, if any). Every theorem below holds for all of them.
\<close>

record runtime =
  py_str :: "pyval \<Rightarrow> string"
  py_int :: "pyval \<Rightarrow> pyexn + int"
  json_loads :: "string \<Rightarrow> pyval option"
  json_dumps :: "pyval \<Rightarrow> string"
  re_search :: "string \<Rightarrow> string option"

text \<open>The language model: the prompt in, the text of the reply out, or a raise.\<close>

type_synonym llm = "string \<Rightarrow> pyexn + string"

section \<open>The shared state (src/agent/state.py, as built in execute_task_with_context)\<close>

record state =
  task :: string
  domain :: string
  retrieved_context :: pyval
  website_schema :: pyval
  plan :: pyval
  current_step :: int
  steps_completed :: "int list"
  browser_state :: pyval
  form_data :: pyval
  success :: bool
  error :: pyval
  screenshots :: "pyval list"
  agent_reasoning :: string
  execution_id :: string
  timestamp :: string
  retries :: int

text \<open>
  The state literal of \<open>execute_task_with_context\<close>. The retrieved context, the
  generated id and the clock reading are inputs.
\<close>

definition initial_state :: "string \<Rightarrow> string \<Rightarrow> pyval \<Rightarrow> string \<Rightarrow> string \<Rightarrow> state" where
  "initial_state tsk dmn login_context eid ts =
     \<lparr> task = tsk,
       domain = dmn,
       retrieved_context = login_context,
       website_schema = PDict
         [(PStr ''login_url'', PStr ''http://lms2.ai.saveetha.in/login/index.php''),
          (PStr ''selectors'', PDict
             [(PStr ''username'', PStr ''#username''),
              (PStr ''password'', PStr ''#password''),
              (PStr ''loginbtn'', PStr ''#loginbtn'')])],
       plan = PDict [],
       current_step = 0,
       steps_completed = [],
       browser_state = PDict [],
       form_data = PDict [(PStr ''username'', PStr ''''), (PStr ''password'', PStr '''')],
       success = False,
       error = PNone,
       screenshots = [],
       agent_reasoning = '''',
       execution_id = eid,
       timestamp = ts,
       retries = 0 \<rparr>"

section \<open>The router (src/agent/graph.py, \<open>_should_continue\<close>)\<close>

datatype decision = Continue | Done

text \<open>
  The router mutates the state it is given, so the model returns the decision together
  with the state. \<open>len(steps)\<close> is evaluated only when \<open>success\<close> is false
  (\<open>or\<close> short-circuits).
\<close>

definition should_continue :: "state \<Rightarrow> pyexn + (decision \<times> state)" where
  "should_continue s =
     (if truthy (error s) \<and> retries s \<ge> 2 then Inr (Done, s)
      else and_then (py_get (plan s) ''steps'' (PList [])) (\<lambda>steps.
        and_then (if success s then Inr True
                  else and_then (py_len steps) (\<lambda>n. Inr (current_step s \<ge> n))) (\<lambda>finished.
          if finished then Inr (Done, s\<lparr>success := True\<rparr>)
          else if current_step s \<ge> 10 then Inr (Done, s)
          else if truthy (error s)
            then Inr (Continue, s\<lparr>retries := retries s + 1, error := PNone\<rparr>)
          else Inr (Continue, s))))"

text \<open>\<open>len(state["plan"].get("steps", []))\<close>, where it is defined.\<close>

definition plan_len :: "state \<Rightarrow> pyexn + int" where
  "plan_len s = and_then (py_get (plan s) ''steps'' (PList [])) py_len"

section \<open>The planner (src/agent/nodes/planner.py)\<close>

definition PLANNER_PROMPT :: "string \<Rightarrow> string \<Rightarrow> string \<Rightarrow> string" where
  "PLANNER_PROMPT tsk dmn context_str =
     [nl] @ ''You are a smart web automation planner.'' @ [nl] @ ''TASK: '' @ tsk @ [nl] @
     ''URL: '' @ dmn @ [nl] @ [nl] @ ''CONTEXT (Scraped HTML):'' @ [nl] @ context_str @
     [nl] @ [nl] @ ''INSTRUCTIONS:'' @ [nl] @
     ''1. Analyze the CONTEXT to find input names/ids for the task.'' @ [nl] @
     ''2. HackerNews uses name='' @ [sq] @ ''acct'' @ [sq] @ '' (user) and name='' @ [sq] @
     ''pw'' @ [sq] @ '' (pass).'' @ [nl] @ ''3. Standard sites use name='' @ [sq] @
     ''username'' @ [sq] @ '', '' @ [sq] @ ''email'' @ [sq] @ '', '' @ [sq] @
     ''password'' @ [sq] @ ''.'' @ [nl] @ ''4. Create a JSON plan.'' @ [nl] @ [nl] @
     ''OUTPUT JSON format:'' @ [nl] @ ''{'' @ [nl] @ ''  '' @ [dq] @ ''steps'' @ [dq] @
     '': ['' @ [nl] @ ''    { '' @ [dq] @ ''step'' @ [dq] @ '': 1, '' @ [dq] @ ''action'' @
     [dq] @ '': '' @ [dq] @ ''navigate'' @ [dq] @ '', '' @ [dq] @ ''target'' @ [dq] @
     '': '' @ [dq] @ dmn @ [dq] @ '', '' @ [dq] @ ''expected_outcome'' @ [dq] @ '': '' @
     [dq] @ ''Page loaded'' @ [dq] @ '' },'' @ [nl] @ ''    { '' @ [dq] @ ''step'' @ [dq] @
     '': 2, '' @ [dq] @ ''action'' @ [dq] @ '': '' @ [dq] @ ''fill'' @ [dq] @ '', '' @
     [dq] @ ''target'' @ [dq] @ '': '' @ [dq] @ ''SELECTOR'' @ [dq] @ '', '' @ [dq] @
     ''data'' @ [dq] @ '': { '' @ [dq] @ ''value'' @ [dq] @ '': '' @ [dq] @ ''VALUE'' @
     [dq] @ '' } },'' @ [nl] @ ''    { '' @ [dq] @ ''step'' @ [dq] @ '': 3, '' @ [dq] @
     ''action'' @ [dq] @ '': '' @ [dq] @ ''click'' @ [dq] @ '', '' @ [dq] @ ''target'' @
     [dq] @ '': '' @ [dq] @ ''SELECTOR'' @ [dq] @ '' }'' @ [nl] @ ''  ]'' @ [nl] @ ''}'' @
     [nl]"

definition extract_json :: "runtime \<Rightarrow> string \<Rightarrow> pyval" where
  "extract_json rt text =
     (case json_loads rt text of
        Some v \<Rightarrow> v
      | None \<Rightarrow>
         (case re_search rt text of
            Some m \<Rightarrow> (case json_loads rt m of
                         Some v \<Rightarrow> v
                       | None \<Rightarrow> PDict [(PStr ''steps'', PList [])])
          | None \<Rightarrow> PDict [(PStr ''steps'', PList [])]))"

text \<open>
  \<open>extract_value\<close>: the loop over \<open>enumerate(words)\<close>, from position \<open>i\<close>. The first word
  that contains a key and has a word two positions later decides.
\<close>

function extract_value_at :: "string list \<Rightarrow> string list \<Rightarrow> nat \<Rightarrow> string" where
  "extract_value_at words keys i =
     (if i < length words then
        (if list_ex (\<lambda>k. py_in k (py_lower (words ! i))) keys \<and> i + 2 < length words
         then py_strip_chars [dq] (py_strip_chars [sq] (words ! (i + 2)))
         else extract_value_at words keys (i + 1))
      else ''unknown_value'')"
  by pat_completeness auto
termination
  by (relation "measure (\<lambda>(words, keys, i). length words - i)") auto

declare extract_value_at.simps [simp del]

definition extract_value :: "string \<Rightarrow> string list \<Rightarrow> string" where
  "extract_value text keys = extract_value_at (py_split text) keys 0"

definition generate_heuristic_plan :: "string \<Rightarrow> string \<Rightarrow> pyval" where
  "generate_heuristic_plan tsk dmn =
     (let steps0 = [PDict [(PStr ''step'', PInt 1), (PStr ''action'', PStr ''navigate''),
                           (PStr ''target'', PStr dmn),
                           (PStr ''expected_outcome'', PStr ''Page loaded'')]];
          step_count0 = (2::int);
          task_lower = py_lower tsk;
          (steps1, step_count1) =
            (if py_in ''user'' task_lower \<or> py_in ''login'' task_lower
             then (steps0 @ [PDict [(PStr ''step'', PInt step_count0), (PStr ''action'', PStr ''fill''),
                      (PStr ''target'', PStr (''input[name='' @ [sq] @ ''acct'' @ [sq] @ ''], input[name='' @ [sq] @ ''username'' @ [sq] @ ''], input[name='' @ [sq] @ ''email'' @ [sq] @ ''], #username, #email'')),
                      (PStr ''data'', PDict [(PStr ''value'',
                          PStr (extract_value tsk [''username'', ''user'', ''id'']))]),
                      (PStr ''expected_outcome'', PStr ''Username filled'')]],
                   step_count0 + 1)
             else (steps0, step_count0));
          (steps2, step_count2) =
            (if py_in ''pass'' task_lower
             then (steps1 @ [PDict [(PStr ''step'', PInt step_count1), (PStr ''action'', PStr ''fill''),
                      (PStr ''target'', PStr (''input[name='' @ [sq] @ ''pw'' @ [sq] @ ''], input[name='' @ [sq] @ ''password'' @ [sq] @ ''], #password, #pass'')),
                      (PStr ''data'', PDict [(PStr ''value'',
                          PStr (extract_value tsk [''password'', ''pass'']))]),
                      (PStr ''expected_outcome'', PStr ''Password filled'')]],
                   step_count1 + 1)
             else (steps1, step_count1));
          steps3 = steps2 @ [PDict [(PStr ''step'', PInt step_count2), (PStr ''action'', PStr ''click''),
                      (PStr ''target'', PStr (''input[type='' @ [sq] @ ''submit'' @ [sq] @ ''], button[type='' @ [sq] @ ''submit'' @ [sq] @ ''], #loginbtn, button:has-text('' @ [sq] @ ''Log in'' @ [sq] @ ''), button:has-text('' @ [sq] @ ''Sign in'' @ [sq] @ '')'')),
                      (PStr ''expected_outcome'', PStr ''Form submitted'')]];
          step_count3 = step_count2 + 1;
          steps4 = steps3 @ [PDict [(PStr ''step'', PInt step_count3), (PStr ''action'', PStr ''screenshot''),
                      (PStr ''target'', PStr ''final_result''),
                      (PStr ''expected_outcome'', PStr ''Evidence captured'')]]
      in PDict [(PStr ''steps'', PList steps4)])"

text \<open>
  Steps 1 to 4 of \<open>plan_workflow\<close>: the reply of the model, parsed, or the heuristic plan
  when the parsed value has no truthy \<open>steps\<close>. A raise of the model, or of \<open>.get\<close> on a
  parsed value that is not a dict, leaves the \<open>try\<close> block.
\<close>

definition plan_request :: "runtime \<Rightarrow> llm \<Rightarrow> state \<Rightarrow> pyexn + pyval" where
  "plan_request rt model s =
     (let context_str = take 2000 (py_str rt (retrieved_context s))
      in and_then (model (PLANNER_PROMPT (task s) (domain s) context_str)) (\<lambda>content.
           let plan_json = extract_json rt (py_strip content)
           in and_then (py_get plan_json ''steps'' PNone) (\<lambda>steps.
                Inr (if \<not> truthy steps then generate_heuristic_plan (task s) (domain s)
                     else plan_json))))"

text \<open>
  The log line after the plan is stored evaluates \<open>len(plan_json['steps'])\<close> and
  \<open>[s['action'] for s in plan_json['steps']]\<close>; either may raise.
\<close>

definition plan_log_line :: "runtime \<Rightarrow> pyval \<Rightarrow> pyexn + string" where
  "plan_log_line rt plan_json =
     and_then (py_getitem plan_json (PStr ''steps'')) (\<lambda>steps.
       and_then (py_len steps) (\<lambda>n.
         and_then (py_iter steps) (\<lambda>items.
           and_then (map_exn (\<lambda>s. py_getitem s (PStr ''action'')) items) (\<lambda>actions.
             Inr (''Final Plan ('' @ show_int n @ '' steps): '' @ py_str rt (PList actions))))))"

text \<open>
  \<open>plan_workflow\<close>. The handler of the \<open>try\<close> block stores the heuristic plan in the state
  as the block left it: when the log line raises, \<open>current_step\<close> and \<open>steps_completed\<close>
  have already been reset.
\<close>

definition plan_workflow :: "runtime \<Rightarrow> llm \<Rightarrow> state \<Rightarrow> state" where
  "plan_workflow rt model s =
     (case plan_request rt model s of
        Inl e \<Rightarrow> s\<lparr>plan := generate_heuristic_plan (task s) (domain s)\<rparr>
      | Inr plan_json \<Rightarrow>
          (let s1 = s\<lparr>plan := plan_json, current_step := 0, steps_completed := []\<rparr>
           in case plan_log_line rt plan_json of
                Inl e \<Rightarrow> s1\<lparr>plan := generate_heuristic_plan (task s1) (domain s1)\<rparr>
              | Inr line \<Rightarrow> s1))"

section \<open>States used to run the definitions\<close>

text \<open>A state used to run the router: an error is pending after one forgiven retry.\<close>

definition retry_state :: state where
  "retry_state =
     (initial_state ''t'' ''d'' (PList []) ''id'' ''now'')
       \<lparr> plan := PDict [(PStr ''steps'',
            PList [PDict [(PStr ''action'', PStr ''navigate'')],
                   PDict [(PStr ''action'', PStr ''click'')]])],
         error := PStr ''Action failed'',
         retries := 1 \<rparr>"

definition ceiling_state :: state where
  "ceiling_state =
     (initial_state ''t'' ''d'' (PList []) ''id'' ''now'')
       \<lparr> plan := PDict [(PStr ''steps'', PList (replicate 12 (PDict [(PStr ''action'', PStr ''wait'')])))],
         current_step := 10 \<rparr>"

text \<open>Reading a plan: its steps, and the action and fill value of a step.\<close>

definition steps_of :: "pyval \<Rightarrow> pyval list" where
  "steps_of p = (case py_get p ''steps'' (PList []) of Inr (PList xs) \<Rightarrow> xs | _ \<Rightarrow> [])"

definition action_of :: "pyval \<Rightarrow> pyval" where
  "action_of st = (case py_get st ''action'' PNone of Inr v \<Rightarrow> v | Inl e \<Rightarrow> PNone)"

definition fill_value_of :: "pyval \<Rightarrow> pyval" where
  "fill_value_of st =
     (case py_get st ''data'' PNone of
        Inr d \<Rightarrow> (case py_get d ''value'' PNone of Inr v \<Rightarrow> v | Inl e \<Rightarrow> PNone)
      | Inl e \<Rightarrow> PNone)"

text \<open>The login scenario: the task sentence and the login page.\<close>

definition hn_task :: string where
  "hn_task = ''Log into HackerNews. Username is '' @ [sq] @ ''bob'' @ [sq] @
     ''. Password is '' @ [sq] @ ''secret'' @ [sq] @ ''.''"

definition hn_domain :: string where
  "hn_domain = ''https://news.ycombinator.com/login''"

section \<open>The validator (src/agent/nodes/validator.py)\<close>

text \<open>\<open>x.lower()\<close>: a method of strings only.\<close>

fun lower_of :: "pyval \<Rightarrow> pyexn + string" where
  "lower_of (PStr s) = Inr (py_lower s)"
| "lower_of v = Inl (no_attribute v ''lower'')"

text \<open>How \<open>str.format\<close> and an f-string print a value: a string as it is, the rest by \<open>str()\<close>.\<close>

fun fmt :: "runtime \<Rightarrow> pyval \<Rightarrow> string" where
  "fmt rt (PStr s) = s"
| "fmt rt v = py_str rt v"

definition VALIDATOR_PROMPT :: "string \<Rightarrow> string \<Rightarrow> string \<Rightarrow> string" where
  "VALIDATOR_PROMPT expected_outcome page_state err =
     [nl] @ ''Precise web automation step validator.'' @ [nl] @ [nl] @
     ''Expected Outcome: '' @ expected_outcome @ [nl] @ ''Page State: '' @ page_state @
     [nl] @ ''Error: '' @ err @ [nl] @ [nl] @ ''SUCCESS RULES:'' @ [nl] @
     ''- Navigate: Current URL contains '' @ [dq] @ ''login/index.php'' @ [dq] @ [nl] @
     ''- Fill: Target field value matches data  '' @ [nl] @
     ''- Click/Submit: Target no longer exists OR page changes'' @ [nl] @
     ''- Post-login: '' @ [dq] @ ''dashboard'' @ [dq] @ '', '' @ [dq] @ ''profile'' @
     [dq] @ '', '' @ [dq] @ ''welcome'' @ [dq] @ '', '' @ [dq] @ ''logout'' @ [dq] @
     '', '' @ [dq] @ ''student'' @ [dq] @ '', '' @ [dq] @ ''courses'' @ [dq] @
     '' OR no '' @ [dq] @ ''#login'' @ [dq] @ ''/'' @ [dq] @ ''#username'' @ [dq] @ [nl] @
     ''- Screenshot: File saved'' @ [nl] @ [nl] @ ''Output ONLY JSON:'' @ [nl] @ ''{'' @
     [dq] @ ''success'' @ [dq] @ '': true/false, '' @ [dq] @ ''reason'' @ [dq] @ '': '' @
     [dq] @ ''brief'' @ [dq] @ '', '' @ [dq] @ ''should_retry'' @ [dq] @ '': false}'' @ [nl]"

definition verdict :: "string \<Rightarrow> pyval" where
  "verdict reason =
     PDict [(PStr ''success'', PBool True), (PStr ''reason'', PStr reason),
            (PStr ''should_retry'', PBool False)]"

text \<open>
  The \<open>if\<close>/\<open>elif\<close> chain of \<open>validate_heuristic\<close> on the action: the verdict it returns,
  or \<open>None\<close> when control falls through the chain (no branch taken, or the test inside
  the branch taken is false).
\<close>

definition action_rule :: "string \<Rightarrow> string \<Rightarrow> string \<Rightarrow> string \<Rightarrow> pyval option" where
  "action_rule action target page_content current_url =
     (if action = ''navigate'' then
        (if py_in ''login/index.php'' current_url then Some (verdict ''On login page'') else None)
      else if action = ''fill'' then
        (let clean_target = py_replace_char (CHR ''.'') [] (py_replace_char (CHR ''#'') [] target)
         in if py_in clean_target page_content \<or> py_in target page_content
            then Some (verdict (''Filled '' @ target)) else None)
      else if action \<in> set [''click'', ''submit''] then
        (let no_login_form = list_all (\<lambda>ind. \<not> py_in ind page_content) [''#login'', ''#username''];
             page_changed = (\<not> py_in ''login/index.php'' current_url)
         in if no_login_form \<or> page_changed
            then Some (verdict ''Form submitted/page changed'') else None)
      else if action = ''screenshot'' then Some (verdict ''Screenshot completed'')
      else None)"

text \<open>
  \<open>validate_heuristic\<close>; \<open>step_no\<close> is its argument \<open>current_step\<close>. After the chain, for
  \<open>current_step >= 3\<close>, the function computes
  \<open>has_success\<close> from the post-login keywords; the source ends there, so the value is
  not used and the function returns \<open>None\<close>, as it does for \<open>current_step < 3\<close>.
\<close>

definition validate_heuristic :: "runtime \<Rightarrow> pyval \<Rightarrow> pyval \<Rightarrow> pyval \<Rightarrow> int \<Rightarrow> pyexn + pyval" where
  "validate_heuristic rt step page_state err step_no =
     and_then (and_then (py_get step ''action'' (PStr [])) lower_of) (\<lambda>action.
       and_then (and_then (py_get step ''target'' (PStr [])) lower_of) (\<lambda>target.
         let page_content = py_lower (py_str rt page_state)
         in and_then (and_then (py_get page_state ''url'' (PStr [])) lower_of) (\<lambda>current_url.
              case action_rule action target page_content current_url of
                Some v \<Rightarrow> Inr v
              | None \<Rightarrow>
                  (if step_no \<ge> 3 then
                     (let success_keywords = [''dashboard'', ''profile'', ''welcome'', ''logout'',
                                              ''student'', ''courses'', ''saveetha''];
                          has_success = list_ex (\<lambda>kw. py_in kw page_content) success_keywords
                      in Inr PNone)
                   else Inr PNone))))"

text \<open>The generative tier: the judge's reply, parsed by \<open>extract_json\<close>.\<close>

definition judge :: "runtime \<Rightarrow> llm \<Rightarrow> pyval \<Rightarrow> pyval \<Rightarrow> pyval \<Rightarrow> pyexn + pyval" where
  "judge rt model expected_outcome page_state err =
     and_then (model (VALIDATOR_PROMPT (fmt rt expected_outcome) (py_str rt page_state) (fmt rt err)))
       (\<lambda>content. Inr (extract_json rt (py_strip content)))"

text \<open>What \<open>validate_step\<close> does with the final verdict; \<open>n\<close> is \<open>len(steps)\<close>.\<close>

definition apply_verdict :: "state \<Rightarrow> int \<Rightarrow> pyval \<Rightarrow> pyexn + state" where
  "apply_verdict s n validation =
     and_then (py_get validation ''success'' PNone) (\<lambda>ok.
       if truthy ok then
         (let s1 = s\<lparr>steps_completed := steps_completed s @ [current_step s],
                      current_step := current_step s + 1\<rparr>
          in Inr (if current_step s1 \<ge> n then s1\<lparr>success := True\<rparr> else s1))
       else
         and_then (py_get validation ''should_retry'' (PBool False)) (\<lambda>should_retry.
           if \<not> truthy should_retry then
             and_then (py_get validation ''reason'' (PStr ''Validation failed'')) (\<lambda>reason.
               let s1 = s\<lparr>error := reason\<rparr>
               in Inr (if current_step s < 3
                       then s1\<lparr>current_step := current_step s + 1, error := PNone\<rparr>
                       else s1))
           else Inr s))"

text \<open>The \<open>try\<close> block of \<open>validate_step\<close> after the check for a finished plan.\<close>

definition validate_current :: "runtime \<Rightarrow> llm \<Rightarrow> state \<Rightarrow> pyval \<Rightarrow> int \<Rightarrow> pyexn + state" where
  "validate_current rt model s steps n =
     and_then (py_getitem steps (PInt (current_step s))) (\<lambda>step.
       and_then (py_get step ''expected_outcome'' (PStr ''Complete step'')) (\<lambda>expected_outcome.
         let page_state = browser_state s; err = error s
         in and_then (validate_heuristic rt step page_state err (current_step s)) (\<lambda>validation.
              and_then (py_get validation ''success'' PNone) (\<lambda>ok.
                and_then (if \<not> truthy ok then judge rt model expected_outcome page_state err
                          else Inr validation)
                  (apply_verdict s n)))))"

definition validate_body :: "runtime \<Rightarrow> llm \<Rightarrow> state \<Rightarrow> pyexn + state" where
  "validate_body rt model s =
     and_then (py_get (plan s) ''steps'' (PList [])) (\<lambda>steps.
       and_then (py_len steps) (\<lambda>n.
         if current_step s \<ge> n then Inr (s\<lparr>success := True\<rparr>)
         else validate_current rt model s steps n))"

text \<open>
  \<open>validate_step\<close>: the \<open>try\<close> block, and the handler of any exception raised in it. The
  block changes the state only after its last raising operation, so the handler sees
  the state as it was passed in.
\<close>

definition validate_step :: "runtime \<Rightarrow> llm \<Rightarrow> state \<Rightarrow> state" where
  "validate_step rt model s =
     (case validate_body rt model s of
        Inr s' \<Rightarrow> s'
      | Inl e \<Rightarrow>
          (if current_step s \<le> 4 then s\<lparr>current_step := current_step s + 1\<rparr>
           else s\<lparr>error := PStr (''Validation failed: '' @ exn_str e)\<rparr>))"

section \<open>A runtime, a model and states to run the definitions\<close>

fun join :: "string \<Rightarrow> string list \<Rightarrow> string" where
  "join sep [] = []"
| "join sep [x] = x"
| "join sep (x # y # ys) = x @ sep @ join sep (y # ys)"

text \<open>
  \<open>repr\<close> and \<open>json.dumps\<close> on the values used below: \<open>None\<close>, booleans, integers, lists,
  dicts, and strings of printable characters without quotes or backslashes. (Floats
  with a fraction and strings that need escapes are outside what these two print as
  Python does.)
\<close>

fun py_repr :: "pyval \<Rightarrow> string" where
  "py_repr PNone = ''None''"
| "py_repr (PBool b) = (if b then ''True'' else ''False'')"
| "py_repr (PInt i) = show_int i"
| "py_repr (PFloat f) =
     (case f of Finite r \<Rightarrow> show_int \<lfloor>r\<rfloor> @ ''.0'' | PosInf \<Rightarrow> ''inf'' | NegInf \<Rightarrow> ''-inf''
      | NaN \<Rightarrow> ''nan'')"
| "py_repr (PStr s) = [sq] @ s @ [sq]"
| "py_repr (PList xs) = ''['' @ join '', '' (map py_repr xs) @ '']''"
| "py_repr (PDict kvs) =
     ''{'' @ join '', '' (map (\<lambda>(k, v). py_repr k @ '': '' @ py_repr v) kvs) @ ''}''"

fun json_text :: "pyval \<Rightarrow> string" where
  "json_text PNone = ''null''"
| "json_text (PBool b) = (if b then ''true'' else ''false'')"
| "json_text (PInt i) = show_int i"
| "json_text (PFloat f) =
     (case f of Finite r \<Rightarrow> show_int \<lfloor>r\<rfloor> @ ''.0'' | PosInf \<Rightarrow> ''Infinity''
      | NegInf \<Rightarrow> ''-Infinity'' | NaN \<Rightarrow> ''NaN'')"
| "json_text (PStr s) = [dq] @ s @ [dq]"
| "json_text (PList xs) = ''['' @ join '', '' (map json_text xs) @ '']''"
| "json_text (PDict kvs) =
     ''{'' @ join '', '' (map (\<lambda>(k, v). json_text k @ '': '' @ json_text v) kvs) @ ''}''"

text \<open>
  The runtime of the runs below: \<open>str()\<close> as above, \<open>int()\<close> on integers and booleans, and
  a \<open>json.loads\<close> and a pattern search that are given no JSON text: the model of these
  runs, \<open>model_down\<close>, raises on every prompt.
\<close>

definition plain_runtime :: runtime where
  "plain_runtime =
     \<lparr> py_str = (\<lambda>v. case v of PStr s \<Rightarrow> s | _ \<Rightarrow> py_repr v),
       py_int = (\<lambda>v. case as_index v of
                    Some i \<Rightarrow> Inr i
                  | None \<Rightarrow> Inl (TypeError ''int() argument must be a string or a number'')),
       json_loads = (\<lambda>text. None),
       json_dumps = json_text,
       re_search = (\<lambda>text. None) \<rparr>"

definition model_down :: llm where
  "model_down prompt = Inl (CollaboratorError ''connection refused'')"

text \<open>A plan of seven steps as a planner reply may give it, and two page snapshots.\<close>

definition wait_step :: pyval where
  "wait_step = PDict [(PStr ''step'', PInt 4), (PStr ''action'', PStr ''wait''),
                      (PStr ''target'', PStr ''#dashboard'')]"

definition login_steps :: "pyval list" where
  "login_steps =
     [PDict [(PStr ''step'', PInt 1), (PStr ''action'', PStr ''navigate''),
             (PStr ''target'', PStr ''https://news.ycombinator.com/login'')],
      PDict [(PStr ''step'', PInt 2), (PStr ''action'', PStr ''fill''),
             (PStr ''target'', PStr ''#username''), (PStr ''data'', PDict [(PStr ''value'', PStr ''bob'')])],
      PDict [(PStr ''step'', PInt 3), (PStr ''action'', PStr ''fill''),
             (PStr ''target'', PStr ''#password''), (PStr ''data'', PDict [(PStr ''value'', PStr ''secret'')])],
      wait_step,
      PDict [(PStr ''step'', PInt 5), (PStr ''action'', PStr ''click''),
             (PStr ''target'', PStr ''#loginbtn'')],
      PDict [(PStr ''step'', PInt 6), (PStr ''action'', PStr ''extract''),
             (PStr ''target'', PStr ''#me'')],
      PDict [(PStr ''step'', PInt 7), (PStr ''action'', PStr ''screenshot''),
             (PStr ''target'', PStr ''final_result'')]]"

definition login_page :: pyval where
  "login_page = PDict [(PStr ''url'', PStr ''https://news.ycombinator.com/login''),
                       (PStr ''title'', PStr ''Login''),
                       (PStr ''html'', PStr ''<html><form>login</form></html>'')]"

definition dashboard_page :: pyval where
  "dashboard_page = PDict [(PStr ''url'', PStr ''https://news.ycombinator.com/news''),
                           (PStr ''title'', PStr ''Dashboard''),
                           (PStr ''html'', PStr ''<html>welcome bob | logout</html>'')]"

text \<open>The state of a run of \<open>login_steps\<close> at step \<open>k\<close>, with a page snapshot and an error.\<close>

definition at_step :: "int \<Rightarrow> pyval \<Rightarrow> pyval \<Rightarrow> state" where
  "at_step k page err =
     (initial_state hn_task hn_domain (PList []) ''id'' ''now'')
       \<lparr> plan := PDict [(PStr ''steps'', PList login_steps)],
         current_step := k,
         browser_state := page,
         error := err \<rparr>"

section \<open>The executor (src/agent/nodes/executor.py)\<close>

text \<open>
  The browser tools are the collaborator: each is a function of its arguments that
  returns a result or raises. \<open>browser_fill\<close> and \<open>browser_screenshot\<close> are the methods of
  the adapter that the executor looks for with \<open>hasattr\<close> (\<open>None\<close> when the adapter has no
  such attribute).
\<close>

record tools =
  navigate :: "pyval \<Rightarrow> pyexn + pyval"
  fill_form :: "pyval \<Rightarrow> pyval \<Rightarrow> pyexn + pyval"
  click :: "pyval \<Rightarrow> pyexn + pyval"
  select_option :: "pyval \<Rightarrow> pyval \<Rightarrow> pyexn + pyval"
  submit_form :: "pyval \<Rightarrow> pyexn + pyval"
  wait_for :: "pyval \<Rightarrow> int \<Rightarrow> pyexn + pyval"
  extract_text :: "pyval \<Rightarrow> pyexn + pyval"
  screenshot :: "pyexn + pyval"
  browser_fill :: "(pyval \<Rightarrow> string \<Rightarrow> pyexn + unit) option"
  browser_screenshot :: "(string \<Rightarrow> pyexn + pyval) option"
  get_page_state :: "pyexn + pyval"

text \<open>\<open>x in c\<close>: a key of a dict, an element of a list, a substring of a string.\<close>

fun py_contains :: "pyval \<Rightarrow> pyval \<Rightarrow> pyexn + bool" where
  "py_contains x (PDict kvs) =
     (if hashable x then Inr (x \<in> set (map fst kvs))
      else Inl (TypeError (''unhashable type: '' @ [sq] @ type_name x @ [sq])))"
| "py_contains x (PList xs) = Inr (x \<in> set xs)"
| "py_contains x (PStr s) =
     (case x of PStr sub \<Rightarrow> Inr (py_in sub s)
      | _ \<Rightarrow> Inl (TypeError ([sq] @ ''in <string>'' @ [sq] @ '' requires string as left operand, not ''
                          @ type_name x)))"
| "py_contains x c = Inl (TypeError (''argument of type '' @ [sq] @ type_name c @ [sq] @ '' is not iterable''))"

text \<open>The dict display \<open>{k: v}\<close>: the key must be hashable.\<close>

definition single_dict :: "pyval \<Rightarrow> pyval \<Rightarrow> pyexn + pyval" where
  "single_dict k v =
     (if hashable k then Inr (PDict [(k, v)])
      else Inl (TypeError (''unhashable type: '' @ [sq] @ type_name k @ [sq])))"

fun is_dict :: "pyval \<Rightarrow> bool" where
  "is_dict (PDict kvs) = True"
| "is_dict v = False"

definition failure :: "string \<Rightarrow> pyval" where
  "failure msg = PDict [(PStr ''success'', PBool False), (PStr ''error'', PStr msg)]"

text \<open>The branch for \<open>fill\<close> and \<open>fill_form\<close>, with its own \<open>try\<close> around the browser calls.\<close>

definition dispatch_fill :: "runtime \<Rightarrow> tools \<Rightarrow> pyval \<Rightarrow> pyval \<Rightarrow> pyexn + pyval" where
  "dispatch_fill rt bt target data =
     and_then (py_contains (PStr ''value'') data) (\<lambda>has_value.
       and_then (if has_value then and_then (py_len data) (\<lambda>n. Inr (n = 1)) else Inr False) (\<lambda>single.
         and_then (if single then and_then (py_getitem data (PStr ''value'')) (single_dict target)
                   else if \<not> is_dict data \<or> \<not> truthy data then single_dict target data
                   else Inr data) (\<lambda>field_data.
           case (case browser_fill bt of
                   Some fill \<Rightarrow>
                     and_then (py_get data ''value'' (PStr [])) (\<lambda>v.
                       and_then (fill target (fmt rt v)) (\<lambda>u.
                         and_then (get_page_state bt) (\<lambda>page.
                           Inr (PDict [(PStr ''success'', PBool True), (PStr ''page_state'', page)]))))
                 | None \<Rightarrow> fill_form bt target field_data) of
             Inl e \<Rightarrow> Inr (failure (exn_str e))
           | Inr r \<Rightarrow> Inr r)))"

text \<open>The dispatch on the action; \<open>step_no\<close> is \<open>current_step\<close>.\<close>

definition dispatch :: "runtime \<Rightarrow> tools \<Rightarrow> string \<Rightarrow> pyval \<Rightarrow> pyval \<Rightarrow> int \<Rightarrow> pyexn + pyval" where
  "dispatch rt bt action target data step_no =
     (if action = ''navigate'' then navigate bt target
      else if action \<in> set [''fill'', ''fill_form''] then dispatch_fill rt bt target data
      else if action = ''click'' then click bt target
      else if action = ''select'' then
        and_then (py_get data ''value'' (PStr [])) (select_option bt target)
      else if action = ''submit'' then submit_form bt target
      else if action = ''wait'' then
        and_then (py_get data ''timeout'' (PInt 30000)) (\<lambda>t.
          and_then (py_int rt t) (wait_for bt target))
      else if action = ''extract'' then extract_text bt target
      else if action = ''screenshot'' then
        (let path = ''screenshots/step-'' @ show_int (step_no + 1) @ ''.png''
         in case browser_screenshot bt of
              Some shot \<Rightarrow>
                and_then (shot path) (\<lambda>saved_path.
                  and_then (get_page_state bt) (\<lambda>page.
                    Inr (PDict [(PStr ''success'', PBool True), (PStr ''path'', saved_path),
                                (PStr ''page_state'', page)])))
            | None \<Rightarrow> screenshot bt)
      else Inr (failure (''Unknown action: '' @ action)))"

text \<open>The \<open>if\<close>/\<open>else\<close> that writes the result of the step into the state.\<close>

definition record_result :: "state \<Rightarrow> pyval \<Rightarrow> bool \<Rightarrow> pyexn + state" where
  "record_result s result ok =
     (if ok then
        and_then (py_get result ''page_state'' (PDict [])) (\<lambda>page.
          and_then (py_contains (PStr ''path'') result) (\<lambda>has_path.
            if has_path then
              and_then (py_getitem result (PStr ''path'')) (\<lambda>p.
                Inr (s\<lparr>browser_state := page, screenshots := screenshots s @ [p]\<rparr>))
            else Inr (s\<lparr>browser_state := page\<rparr>)))
      else if truthy result then
        and_then (py_get result ''error'' (PStr ''Action failed'')) (\<lambda>e. Inr (s\<lparr>error := e\<rparr>))
      else Inr (s\<lparr>error := PStr ''No result''\<rparr>))"

definition store_result :: "runtime \<Rightarrow> state \<Rightarrow> pyval \<Rightarrow> pyexn + state" where
  "store_result rt s result =
     and_then (if truthy result
               then and_then (py_get result ''success'' PNone) (\<lambda>ok. Inr (truthy ok))
               else Inr False) (\<lambda>ok.
       and_then (record_result s result ok) (\<lambda>s1.
         Inr (s1\<lparr>agent_reasoning := json_dumps rt (if truthy result then result else PDict [])\<rparr>)))"

text \<open>The \<open>try\<close> block of \<open>execute_action\<close> from the step lookup on; \<open>n\<close> is \<open>len(steps)\<close>.\<close>

definition execute_current :: "runtime \<Rightarrow> tools \<Rightarrow> state \<Rightarrow> pyval \<Rightarrow> pyexn + state" where
  "execute_current rt bt s steps =
     and_then (py_getitem steps (PInt (current_step s))) (\<lambda>step.
       and_then (and_then (py_get step ''action'' (PStr [])) lower_of) (\<lambda>action.
         and_then (py_get step ''target'' PNone) (\<lambda>target.
           and_then (py_get step ''data'' (PDict [])) (\<lambda>d.
             let data = (if truthy d then d else PDict [])
             in and_then (dispatch rt bt action target data (current_step s))
                  (store_result rt s)))))"

definition execute_body :: "runtime \<Rightarrow> tools \<Rightarrow> state \<Rightarrow> pyexn + state" where
  "execute_body rt bt s =
     and_then (py_get (plan s) ''steps'' PNone) (\<lambda>planned.
       if \<not> truthy planned then Inr (s\<lparr>error := PStr ''No plan available''\<rparr>)
       else and_then (py_get (plan s) ''steps'' (PList [])) (\<lambda>steps.
              and_then (py_len steps) (\<lambda>n.
                if current_step s \<ge> n then Inr (s\<lparr>success := True\<rparr>)
                else execute_current rt bt s steps)))"

text \<open>
  \<open>execute_action\<close>. As in the validator, the block writes the state only after its last
  raising operation, so the handler sets \<open>error\<close> in the state as passed in.
\<close>

definition execute_action :: "runtime \<Rightarrow> tools \<Rightarrow> state \<Rightarrow> state" where
  "execute_action rt bt s =
     (case execute_body rt bt s of
        Inr s' \<Rightarrow> s'
      | Inl e \<Rightarrow> s\<lparr>error := PStr (''Execution failed: '' @ exn_str e)\<rparr>)"


section \<open>The loop (src/agent/graph.py, \<open>_build_graph\<close> and \<open>execute_task_with_context\<close>)\<close>

text \<open>
  The exits of \<open>validate_step\<close>, as effects on the state. \<open>Finished\<close>: the plan is already
  complete. \<open>Validated\<close>: the success branch. \<open>Skipped\<close>: the failure branch below step 3
  (advance, error cleared). \<open>Failed r\<close>: the failure branch from step 3 on (error set to
  the reason). \<open>Retry\<close>: a failure with \<open>should_retry\<close> set (nothing changes).
  \<open>AutoAdvanced\<close> and \<open>Crashed m\<close>: the two branches of the exception handler.
\<close>

datatype outcome = Finished | Validated | Skipped | Failed pyval | Retry | AutoAdvanced | Crashed string

fun apply_outcome :: "int \<Rightarrow> outcome \<Rightarrow> state \<Rightarrow> state" where
  "apply_outcome n Finished s = s\<lparr>success := True\<rparr>"
| "apply_outcome n Validated s =
     (let s1 = s\<lparr>steps_completed := steps_completed s @ [current_step s],
                  current_step := current_step s + 1\<rparr>
      in if current_step s1 \<ge> n then s1\<lparr>success := True\<rparr> else s1)"
| "apply_outcome n Skipped s = s\<lparr>error := PNone, current_step := current_step s + 1\<rparr>"
| "apply_outcome n (Failed r) s = s\<lparr>error := r\<rparr>"
| "apply_outcome n Retry s = s"
| "apply_outcome n AutoAdvanced s = s\<lparr>current_step := current_step s + 1\<rparr>"
| "apply_outcome n (Crashed m) s = s\<lparr>error := PStr (''Validation failed: '' @ m)\<rparr>"

text \<open>
  The outcomes that advance \<open>current_step\<close>, end the plan, or leave an error that the
  router sees (a non-empty one). \<open>Retry\<close> does neither.
\<close>

fun progresses :: "outcome \<Rightarrow> bool" where
  "progresses Retry = False"
| "progresses (Failed r) = truthy r"
| "progresses other = True"

text \<open>
  The router over a sequence of validator outcomes, one per cycle: the number of the
  cycle in which it returns DONE, or \<open>None\<close> when it does not within the sequence (or
  raises). \<open>n\<close> is the length of the plan.
\<close>

fun route_cycles :: "int \<Rightarrow> outcome list \<Rightarrow> state \<Rightarrow> nat option" where
  "route_cycles n [] s = None"
| "route_cycles n (v # vs) s =
     (case should_continue (apply_outcome n v s) of
        Inl e \<Rightarrow> None
      | Inr (d, s') \<Rightarrow>
          (case d of Done \<Rightarrow> Some 1 | Continue \<Rightarrow> map_option Suc (route_cycles n vs s')))"

text \<open>
  The compiled graph: \<open>plan\<close>, then \<open>execute\<close>, \<open>validate\<close> and the conditional edge, with
  \<open>continue\<close> leading back to \<open>execute\<close> and \<open>done\<close> to the end. The graph engine is a
  library; of its run this model keeps the contract of \<open>recursion_limit\<close>: every node
  visit takes one step, and the run is aborted with \<open>GraphRecursionError\<close> when the steps
  are used up before the end is reached. The node functions take the number of the cycle,
  so that the collaborators may answer differently each time. The result carries the
  number of cycles begun.
\<close>

datatype run_end = Ended state | GraphRecursionError state | Raised pyexn

fun graph_cycles ::
  "nat \<Rightarrow> (nat \<Rightarrow> state \<Rightarrow> state) \<Rightarrow> (nat \<Rightarrow> state \<Rightarrow> state)
     \<Rightarrow> (state \<Rightarrow> pyexn + decision \<times> state) \<Rightarrow> nat \<Rightarrow> state \<Rightarrow> nat \<times> run_end" where
  "graph_cycles 0 ex va ro k s = (k, GraphRecursionError s)"
| "graph_cycles (Suc 0) ex va ro k s = (Suc k, GraphRecursionError (ex k s))"
| "graph_cycles (Suc (Suc steps_left)) ex va ro k s =
     (case ro (va k (ex k s)) of
        Inl e \<Rightarrow> (Suc k, Raised e)
      | Inr (d, s') \<Rightarrow>
          (case d of Done \<Rightarrow> (Suc k, Ended s')
           | Continue \<Rightarrow> graph_cycles steps_left ex va ro (Suc k) s'))"

definition recursion_limit :: nat where
  "recursion_limit = 15"

definition ainvoke ::
  "(state \<Rightarrow> state) \<Rightarrow> (nat \<Rightarrow> state \<Rightarrow> state) \<Rightarrow> (nat \<Rightarrow> state \<Rightarrow> state)
     \<Rightarrow> (state \<Rightarrow> pyexn + decision \<times> state) \<Rightarrow> state \<Rightarrow> nat \<times> run_end" where
  "ainvoke pl ex va ro s = graph_cycles (recursion_limit - 1) ex va ro 0 (pl s)"

text \<open>
  The graph of the agent: its three nodes and \<open>_should_continue\<close>, with the model and the
  browser tools as they answer in each cycle.
\<close>

definition run_graph ::
  "runtime \<Rightarrow> llm \<Rightarrow> (nat \<Rightarrow> llm) \<Rightarrow> (nat \<Rightarrow> tools) \<Rightarrow> state \<Rightarrow> nat \<times> run_end" where
  "run_graph rt planner judges browser s =
     ainvoke (plan_workflow rt planner)
       (\<lambda>k. execute_action rt (browser k))
       (\<lambda>k. validate_step rt (judges k))
       should_continue s"

text \<open>What is left of the advance and retry allowances of the router in a state.\<close>

definition budget :: "int \<Rightarrow> state \<Rightarrow> nat" where
  "budget n s = nat (min n 10 - 1 - current_step s) + nat (2 - retries s)"

section \<open>Router: rule precedence\<close>

lemma plan_len_InrD:
  assumes "plan_len s = Inr n"
  obtains steps where "py_get (plan s) ''steps'' (PList []) = Inr steps" and "py_len steps = Inr n"
  using assms by (auto simp: plan_len_def and_then_def split: sum.splits)

lemma should_continue_exhausted:
  "truthy (error s) \<Longrightarrow> retries s \<ge> 2 \<Longrightarrow> should_continue s = Inr (Done, s)"
  by (simp add: should_continue_def)

lemma should_continue_retry:
  assumes "plan_len s = Inr n" "truthy (error s)" "retries s < 2" "\<not> success s"
    "current_step s < n" "current_step s < 10"
  shows "should_continue s = Inr (Continue, s\<lparr>retries := retries s + 1, error := PNone\<rparr>)"
proof -
  from assms(1) obtain steps where
    "py_get (plan s) ''steps'' (PList []) = Inr steps" "py_len steps = Inr n"
    by (rule plan_len_InrD)
  with assms(2-) show ?thesis
    by (simp add: should_continue_def and_then_def)
qed

lemma should_continue_ceiling:
  assumes "plan_len s = Inr n" "current_step s \<ge> 10"
  shows "should_continue s =
     Inr (Done, if (truthy (error s) \<and> retries s \<ge> 2) \<or> \<not> (success s \<or> current_step s \<ge> n)
                then s else s\<lparr>success := True\<rparr>)"
proof -
  from assms(1) obtain steps where
    "py_get (plan s) ''steps'' (PList []) = Inr steps" "py_len steps = Inr n"
    by (rule plan_len_InrD)
  with assms(2) show ?thesis
    by (simp add: should_continue_def and_then_def)
qed

text \<open>
  C1. Error handling of the router, in the order of its rules: a pending error with
  two or more retries used gives DONE, with the state untouched; a pending error with
  retries left, when neither completion nor the step ceiling fires, gives CONTINUE with
  retries incremented by exactly one, the error cleared and nothing else changed, so
  current_step does not advance. With retries = 1 the result has retries = 2 and no
  error, and evaluating the router again with any error set gives DONE.
\<close>

theorem router_error_precedence:
  "(truthy (error s) \<and> retries s \<ge> 2 \<longrightarrow> should_continue s = Inr (Done, s))
   \<and> (truthy (error s) \<and> retries s < 2 \<and> \<not> success s \<and> plan_len s = Inr n
        \<and> current_step s < n \<and> current_step s < 10
      \<longrightarrow> should_continue s = Inr (Continue, s\<lparr>retries := retries s + 1, error := PNone\<rparr>))
   \<and> (truthy (error s) \<and> retries s = 1 \<and> \<not> success s \<and> plan_len s = Inr n
        \<and> current_step s < n \<and> current_step s < 10
      \<longrightarrow> (\<exists>s'. should_continue s = Inr (Continue, s') \<and> retries s' = 2 \<and> error s' = PNone
             \<and> current_step s' = current_step s
             \<and> (\<forall>e. truthy e \<longrightarrow> should_continue (s'\<lparr>error := e\<rparr>) = Inr (Done, s'\<lparr>error := e\<rparr>))))"
proof (intro conjI impI)
  assume "truthy (error s) \<and> retries s \<ge> 2"
  then show "should_continue s = Inr (Done, s)"
    by (simp add: should_continue_exhausted)
next
  assume "truthy (error s) \<and> retries s < 2 \<and> \<not> success s \<and> plan_len s = Inr n
        \<and> current_step s < n \<and> current_step s < 10"
  then show "should_continue s = Inr (Continue, s\<lparr>retries := retries s + 1, error := PNone\<rparr>)"
    by (simp add: should_continue_retry)
next
  assume a: "truthy (error s) \<and> retries s = 1 \<and> \<not> success s \<and> plan_len s = Inr n
        \<and> current_step s < n \<and> current_step s < 10"
  let ?s' = "s\<lparr>retries := retries s + 1, error := PNone\<rparr>"
  from a have "should_continue s = Inr (Continue, ?s')"
    by (simp add: should_continue_retry)
  moreover from a have "retries ?s' = 2" "error ?s' = PNone" "current_step ?s' = current_step s"
    by simp_all
  moreover from a have "\<forall>e. truthy e \<longrightarrow> should_continue (?s'\<lparr>error := e\<rparr>) = Inr (Done, ?s'\<lparr>error := e\<rparr>)"
    by (simp add: should_continue_exhausted)
  ultimately show "\<exists>s'. should_continue s = Inr (Continue, s') \<and> retries s' = 2 \<and> error s' = PNone
             \<and> current_step s' = current_step s
             \<and> (\<forall>e. truthy e \<longrightarrow> should_continue (s'\<lparr>error := e\<rparr>) = Inr (Done, s'\<lparr>error := e\<rparr>))"
    by blast
qed

theorem router_error_precedence_witness:
  "should_continue retry_state = Inr (Continue, retry_state\<lparr>retries := 2, error := PNone\<rparr>)
   \<and> should_continue (retry_state\<lparr>retries := 2\<rparr>) = Inr (Done, retry_state\<lparr>retries := 2\<rparr>)"
proof -
  have len: "plan_len retry_state = Inr 2"
    by (simp add: plan_len_def retry_state_def initial_state_def and_then_def)
  have pre: "truthy (error retry_state)" "retries retry_state = 1" "\<not> success retry_state"
    "current_step retry_state = 0"
    by (simp_all add: retry_state_def initial_state_def)
  have pre2: "truthy (error (retry_state\<lparr>retries := 2\<rparr>))"
    by (simp add: retry_state_def initial_state_def)
  show ?thesis
    using router_error_precedence [of retry_state 2]
      router_error_precedence [of "retry_state\<lparr>retries := 2\<rparr>" 2] len pre pre2
    by simp
qed

text \<open>
  C3. Step ceiling: with current_step at 10 or more the router returns DONE, whatever
  the length of the plan, the error and the retry count. The state is returned
  unchanged when the retry rule or the ceiling rule decides, and with success forced
  to true when the completion rule decides.
\<close>

theorem router_step_ceiling:
  assumes "plan_len s = Inr n" and "current_step s \<ge> 10"
  shows "\<exists>s'. should_continue s = Inr (Done, s')
           \<and> (s' = s \<or> (s' = s\<lparr>success := True\<rparr> \<and> (success s \<or> current_step s \<ge> n)))"
  using should_continue_ceiling [OF assms] by auto

theorem router_step_ceiling_witness:
  "should_continue ceiling_state = Inr (Done, ceiling_state)"
proof -
  have len: "plan_len ceiling_state = Inr 12"
    by (simp add: plan_len_def ceiling_state_def initial_state_def and_then_def)
  have cs: "current_step ceiling_state \<ge> 10" "\<not> success ceiling_state"
    by (simp_all add: ceiling_state_def initial_state_def)
  from router_step_ceiling [OF len cs(1)] cs(2) show ?thesis
    by (auto simp: ceiling_state_def initial_state_def)
qed

section \<open>Planner\<close>

lemma truthy_len_pos:
  assumes "truthy v" and "py_len v = Inr n"
  shows "1 \<le> n"
proof (cases v)
  case (PStr str)
  with assms show ?thesis by (cases str) auto
next
  case (PList xs)
  with assms show ?thesis by (cases xs) auto
next
  case (PDict kvs)
  with assms have "remdups (map fst kvs) \<noteq> []" by simp
  then have "1 \<le> length (remdups (map fst kvs))" by (simp add: Suc_le_eq)
  with assms PDict show ?thesis by auto
qed (use assms in auto)

lemma heuristic_plan_steps:
  "\<exists>steps. generate_heuristic_plan tsk dmn = PDict [(PStr ''steps'', PList steps)]
           \<and> 3 \<le> length steps"
  by (simp add: generate_heuristic_plan_def Let_def)

lemma plan_len_heuristic:
  assumes "plan s = generate_heuristic_plan tsk dmn"
  shows "\<exists>n. plan_len s = Inr n \<and> 3 \<le> n"
proof -
  obtain steps where "generate_heuristic_plan tsk dmn = PDict [(PStr ''steps'', PList steps)]"
    and "3 \<le> length steps"
    using heuristic_plan_steps by blast
  with assms show ?thesis
    by (simp add: plan_len_def and_then_def)
qed

lemma getitem_get:
  assumes "py_getitem p (PStr k) = Inr v"
  shows "py_get p k d = Inr v \<or> (\<exists>s. p = PStr s) \<or> (\<exists>xs. p = PList xs)"
  using assms by (cases p) (auto split: if_splits option.splits)

lemma plan_log_line_len:
  assumes "plan_log_line rt pj = Inr line" and "py_get pj ''steps'' PNone = Inr st" and "truthy st"
  shows "\<exists>n. py_get pj ''steps'' (PList []) = Inr st \<and> py_len st = Inr n \<and> 1 \<le> n"
proof -
  from assms(2) obtain kvs where pj: "pj = PDict kvs" by (cases pj) auto
  from assms(2,3) pj obtain v where v: "map_of kvs (PStr ''steps'') = Some v" "v = st"
    by (auto split: option.splits)
  from assms(1) pj v obtain n where "py_len st = Inr n"
    by (auto simp: plan_log_line_def and_then_def split: sum.splits)
  with assms(3) pj v show ?thesis
    by (auto dest: truthy_len_pos)
qed

text \<open>
  C5. Plan non-emptiness: for every task, domain and context, every runtime and every
  behaviour of the language model (a reply that parses to a plan, a reply that does
  not parse, a parsed value with empty, missing or ill-typed steps, a raise),
  \<open>plan_workflow\<close> returns a state, and the plan of that state has a length of at
  least 1.
\<close>

theorem plan_workflow_nonempty:
  "\<exists>n. plan_len (plan_workflow rt model s) = Inr n \<and> 1 \<le> n"
proof -
  have heuristic: "\<exists>n. plan_len s' = Inr n \<and> 1 \<le> n"
    if "plan s' = generate_heuristic_plan tsk dmn" for s' tsk dmn
    using plan_len_heuristic [OF that] by force
  show ?thesis
  proof (cases "plan_request rt model s")
    case (Inl e)
    then have "plan (plan_workflow rt model s) = generate_heuristic_plan (task s) (domain s)"
      by (simp add: plan_workflow_def)
    then show ?thesis by (rule heuristic)
  next
    case (Inr pj)
    show ?thesis
    proof (cases "plan_log_line rt pj")
      case (Inl e)
      with Inr have "plan (plan_workflow rt model s) = generate_heuristic_plan (task s) (domain s)"
        by (simp add: plan_workflow_def Let_def)
      then show ?thesis by (rule heuristic)
    next
      case line: (Inr line)
      with Inr have res: "plan (plan_workflow rt model s) = pj"
        by (simp add: plan_workflow_def Let_def)
      from Inr consider (fallback) "pj = generate_heuristic_plan (task s) (domain s)"
        | (parsed) st where "py_get pj ''steps'' PNone = Inr st" "truthy st"
        by (auto simp: plan_request_def Let_def and_then_def split: sum.splits if_splits)
      then show ?thesis
      proof cases
        case fallback
        with res show ?thesis by (auto intro: heuristic)
      next
        case parsed
        from plan_log_line_len [OF line parsed] res show ?thesis
          by (auto simp: plan_len_def and_then_def)
      qed
    qed
  qed
qed

text \<open>
  C8. The login scenario. The claim expects the five steps navigate, fill, fill, click,
  screenshot with the fill values \<open>bob\<close> and \<open>secret\<close>. The code produces the five steps,
  but not the values: \<open>extract_value\<close> takes the word two positions after the keyword,
  here \<open>'bob'.\<close> and \<open>'secret'.\<close>, and strips quote characters from its two ends; the
  word ends in the full stop, so the closing quote stays and the values are \<open>bob'.\<close> and
  \<open>secret'.\<close>. For the sentence of the comment in \<open>extract_value\<close>, which has no full
  stop, the value is \<open>bob\<close>.
\<close>

theorem heuristic_plan_scenario:
  "map action_of (steps_of (generate_heuristic_plan hn_task hn_domain)) =
     [PStr ''navigate'', PStr ''fill'', PStr ''fill'', PStr ''click'', PStr ''screenshot'']
   \<and> fill_value_of (steps_of (generate_heuristic_plan hn_task hn_domain) ! 1)
       = PStr (''bob'' @ [sq] @ ''.'')
   \<and> fill_value_of (steps_of (generate_heuristic_plan hn_task hn_domain) ! 2)
       = PStr (''secret'' @ [sq] @ ''.'')
   \<and> extract_value (''username is '' @ [sq] @ ''bob'' @ [sq]) [''username'', ''user'', ''id'']
       = ''bob''"
  by code_simp

section \<open>Validator\<close>

lemma and_thenE:
  assumes "and_then m f = Inr y"
  obtains x where "m = Inr x" and "f x = Inr y"
  using assms by (cases m) (simp_all add: and_then_def)

lemma and_then_Inr: "m = Inr x \<Longrightarrow> and_then m f = f x"
  by (simp add: and_then_def)

lemma and_then_Inl: "m = Inl e \<Longrightarrow> and_then m f = Inl e"
  by (simp add: and_then_def)

lemma action_rule_verdict:
  assumes "action_rule a t pc u = Some v"
  shows "\<exists>r. v = verdict r"
proof -
  from assms have "v \<in> {verdict ''On login page'', verdict (''Filled '' @ t),
      verdict ''Form submitted/page changed'', verdict ''Screenshot completed''}"
    unfolding action_rule_def Let_def
    by (simp split: if_split_asm)
  then show ?thesis by blast
qed

text \<open>The heuristic tier returns a success verdict or nothing, never a failure verdict.\<close>

lemma validate_heuristic_result:
  assumes "validate_heuristic rt step ps err k = Inr v"
  shows "v = PNone \<or> (\<exists>r. v = verdict r)"
proof -
  from assms [unfolded validate_heuristic_def Let_def if_cancel] obtain a t u where
    "(case action_rule a t (py_lower (py_str rt ps)) u of
        None \<Rightarrow> Inr PNone | Some v \<Rightarrow> Inr v) = (Inr v :: pyexn + pyval)"
    by (elim and_thenE) blast
  then show ?thesis
    by (cases "action_rule a t (py_lower (py_str rt ps)) u") (auto dest: action_rule_verdict)
qed

lemma apply_verdict_frame:
  assumes "apply_verdict s n v = Inr s'"
  shows "plan s' = plan s \<and> retries s' = retries s
     \<and> (current_step s' = current_step s \<or> current_step s' = current_step s + 1)"
proof -
  from assms [unfolded apply_verdict_def] obtain ok where
    rest: "(if truthy ok then
         (let s1 = s\<lparr>steps_completed := steps_completed s @ [current_step s],
                      current_step := current_step s + 1\<rparr>
          in Inr (if current_step s1 \<ge> n then s1\<lparr>success := True\<rparr> else s1))
       else
         and_then (py_get v ''should_retry'' (PBool False)) (\<lambda>should_retry.
           if \<not> truthy should_retry then
             and_then (py_get v ''reason'' (PStr ''Validation failed'')) (\<lambda>reason.
               let s1 = s\<lparr>error := reason\<rparr>
               in Inr (if current_step s < 3
                       then s1\<lparr>current_step := current_step s + 1, error := PNone\<rparr>
                       else s1))
           else Inr s)) = Inr s'"
    by (rule and_thenE)
  show ?thesis
  proof (cases "truthy ok")
    case True
    with rest have "s' = s\<lparr>steps_completed := steps_completed s @ [current_step s],
                      current_step := current_step s + 1\<rparr>
       \<or> s' = s\<lparr>steps_completed := steps_completed s @ [current_step s],
                      current_step := current_step s + 1, success := True\<rparr>"
      by (simp add: Let_def split: if_split_asm)
    then show ?thesis by (elim disjE) simp_all
  next
    case False
    with rest have "and_then (py_get v ''should_retry'' (PBool False)) (\<lambda>should_retry.
           if \<not> truthy should_retry then
             and_then (py_get v ''reason'' (PStr ''Validation failed'')) (\<lambda>reason.
               let s1 = s\<lparr>error := reason\<rparr>
               in Inr (if current_step s < 3
                       then s1\<lparr>current_step := current_step s + 1, error := PNone\<rparr>
                       else s1))
           else Inr s) = Inr s'"
      by (simp only: if_False)
    then obtain retry where
      r2: "(if \<not> truthy retry then
             and_then (py_get v ''reason'' (PStr ''Validation failed'')) (\<lambda>reason.
               let s1 = s\<lparr>error := reason\<rparr>
               in Inr (if current_step s < 3
                       then s1\<lparr>current_step := current_step s + 1, error := PNone\<rparr>
                       else s1))
           else Inr s) = Inr s'"
      by (rule and_thenE)
    show ?thesis
    proof (cases "truthy retry")
      case True
      with r2 show ?thesis by simp
    next
      case False
      with r2 have "and_then (py_get v ''reason'' (PStr ''Validation failed'')) (\<lambda>reason.
               let s1 = s\<lparr>error := reason\<rparr>
               in Inr (if current_step s < 3
                       then s1\<lparr>current_step := current_step s + 1, error := PNone\<rparr>
                       else s1)) = Inr s'"
        by (simp only: if_True not_False_eq_True simp_thms)
      then obtain reason where
        "(let s1 = s\<lparr>error := reason\<rparr>
               in Inr (if current_step s < 3
                       then s1\<lparr>current_step := current_step s + 1, error := PNone\<rparr>
                       else s1)) = (Inr s' :: pyexn + state)"
        by (rule and_thenE)
      then have "s' = s\<lparr>error := reason\<rparr>
          \<or> s' = s\<lparr>error := reason, current_step := current_step s + 1, error := PNone\<rparr>"
        by (simp add: Let_def split: if_split_asm)
      then show ?thesis by (elim disjE) simp_all
    qed
  qed
qed

lemma validate_current_frame:
  assumes "validate_current rt model s steps n = Inr s'"
  shows "plan s' = plan s \<and> retries s' = retries s
     \<and> (current_step s' = current_step s \<or> current_step s' = current_step s + 1)"
proof -
  from assms [unfolded validate_current_def Let_def]
  obtain v where "apply_verdict s n v = Inr s'"
    by (elim and_thenE) blast
  then show ?thesis by (rule apply_verdict_frame)
qed

lemma validate_body_unfold:
  assumes "py_get (plan s) ''steps'' (PList []) = Inr steps" and "py_len steps = Inr n"
  shows "validate_body rt model s =
     (if current_step s \<ge> n then Inr (s\<lparr>success := True\<rparr>)
      else validate_current rt model s steps n)"
  unfolding validate_body_def
  by (simp only: and_then_Inr [OF assms(1)] and_then_Inr [OF assms(2)])

text \<open>
  One validator transition keeps the plan and the retry count, and either keeps
  \<open>current_step\<close> or, only when it is below the length of the plan, adds one to it.
\<close>

lemma validate_step_frame:
  assumes "plan_len s = Inr n"
  shows "plan (validate_step rt model s) = plan s
     \<and> retries (validate_step rt model s) = retries s
     \<and> (current_step (validate_step rt model s) = current_step s
          \<or> current_step s < n \<and> current_step (validate_step rt model s) = current_step s + 1)"
proof -
  from assms obtain steps where steps:
    "py_get (plan s) ''steps'' (PList []) = Inr steps" "py_len steps = Inr n"
    by (rule plan_len_InrD)
  note body = validate_body_unfold [OF steps, of rt model]
  show ?thesis
  proof (cases "current_step s \<ge> n")
    case True
    with body have "validate_step rt model s = s\<lparr>success := True\<rparr>"
      by (simp add: validate_step_def)
    then show ?thesis by simp
  next
    case False
    with body have body': "validate_body rt model s = validate_current rt model s steps n"
      by simp
    show ?thesis
    proof (cases "validate_current rt model s steps n")
      case (Inl e)
      with body' have "validate_step rt model s =
          (if current_step s \<le> 4 then s\<lparr>current_step := current_step s + 1\<rparr>
           else s\<lparr>error := PStr (''Validation failed: '' @ exn_str e)\<rparr>)"
        by (simp add: validate_step_def)
      with False show ?thesis by simp
    next
      case (Inr s')
      with body' have "validate_step rt model s = s'"
        by (simp add: validate_step_def)
      with validate_current_frame [OF Inr] False show ?thesis by auto
    qed
  qed
qed

section \<open>Step index\<close>

lemma plan_len_cong: "plan s' = plan s \<Longrightarrow> plan_len s' = plan_len s"
  by (simp add: plan_len_def)

lemma should_continue_total:
  assumes "plan_len s = Inr n"
  shows "\<exists>d s'. should_continue s = Inr (d, s')"
proof -
  from assms obtain steps where
    "py_get (plan s) ''steps'' (PList []) = Inr steps" "py_len steps = Inr n"
    by (rule plan_len_InrD)
  then show ?thesis
    by (simp add: should_continue_def and_then_def)
qed

text \<open>The router writes \<open>success\<close>, \<open>retries\<close> and \<open>error\<close> only.\<close>

lemma should_continue_frame:
  assumes "should_continue s = Inr (d, s')"
  shows "current_step s' = current_step s \<and> plan s' = plan s"
proof (cases "truthy (error s) \<and> retries s \<ge> 2")
  case True
  with assms show ?thesis by (simp add: should_continue_def)
next
  case False
  with assms have "and_then (py_get (plan s) ''steps'' (PList [])) (\<lambda>steps.
        and_then (if success s then Inr True
                  else and_then (py_len steps) (\<lambda>n. Inr (current_step s \<ge> n))) (\<lambda>finished.
          if finished then Inr (Done, s\<lparr>success := True\<rparr>)
          else if current_step s \<ge> 10 then Inr (Done, s)
          else if truthy (error s)
            then Inr (Continue, s\<lparr>retries := retries s + 1, error := PNone\<rparr>)
          else Inr (Continue, s))) = Inr (d, s')"
    by (simp add: should_continue_def)
  then obtain finished where
    "(if finished then Inr (Done, s\<lparr>success := True\<rparr>)
      else if current_step s \<ge> 10 then Inr (Done, s)
      else if truthy (error s)
        then Inr (Continue, s\<lparr>retries := retries s + 1, error := PNone\<rparr>)
      else Inr (Continue, s)) = (Inr (d, s') :: pyexn + decision \<times> state)"
    by (elim and_thenE) blast
  then have "s' = s \<or> s' = s\<lparr>success := True\<rparr>
      \<or> s' = s\<lparr>retries := retries s + 1, error := PNone\<rparr>"
    by (simp split: if_split_asm)
  then show ?thesis by (elim disjE) simp_all
qed

lemma py_get_dict_total:
  assumes "py_get d k x = Inr v"
  shows "\<exists>w. py_get d k' x' = Inr w"
  using assms by (cases d) simp_all

text \<open>
  When the heuristic tier returns \<open>None\<close> for the current step, the lookup
  \<open>validation.get("success")\<close> raises, and the handler of \<open>validate_step\<close> decides.
\<close>

lemma validate_step_heuristic_none:
  assumes steps: "py_get (plan s) ''steps'' (PList []) = Inr steps" "py_len steps = Inr n"
    and cs: "current_step s < n"
    and step: "py_getitem steps (PInt (current_step s)) = Inr step"
    and none: "validate_heuristic rt step (browser_state s) (error s) (current_step s) = Inr PNone"
  shows "validate_step rt model s =
     (if current_step s \<le> 4 then s\<lparr>current_step := current_step s + 1\<rparr>
      else s\<lparr>error := PStr (''Validation failed: '' @ exn_str (no_attribute PNone ''get''))\<rparr>)"
proof -
  from none [unfolded validate_heuristic_def Let_def if_cancel] obtain a where
    "py_get step ''action'' (PStr []) = Inr a"
    by (elim and_thenE) blast
  then obtain w where w: "py_get step ''expected_outcome'' (PStr ''Complete step'') = Inr w"
    using py_get_dict_total by blast
  have "validate_current rt model s steps n = Inl (no_attribute PNone ''get'')"
    unfolding validate_current_def Let_def
    by (simp add: and_then_def step w none)
  with cs have "validate_body rt model s = Inl (no_attribute PNone ''get'')"
    by (simp add: validate_body_unfold [OF steps])
  then show ?thesis
    by (simp add: validate_step_def)
qed

lemma validate_heuristic_none:
  assumes "py_get step ''action'' (PStr []) = Inr (PStr a)"
    and "py_get step ''target'' (PStr []) = Inr (PStr t)"
    and "py_get page ''url'' (PStr []) = Inr (PStr u)"
    and "action_rule (py_lower a) (py_lower t) (py_lower (py_str rt page)) (py_lower u) = None"
  shows "validate_heuristic rt step page err k = Inr PNone"
  unfolding validate_heuristic_def Let_def
  by (simp add: and_then_def assms)

text \<open>
  C4. Step-index invariant: from a state with \<open>0 <= current_step <= len(plan.steps)\<close>, one
  validator transition (success increment, leniency force-advance, exception
  auto-advance, or any other exit) gives a state that satisfies the same bounds for the
  same plan, and one router transition returns a decision and leaves \<open>current_step\<close>
  and the plan as they were.
\<close>

theorem step_index_invariant:
  assumes "plan_len s = Inr n" and "0 \<le> current_step s" and "current_step s \<le> n"
  shows "(0 \<le> current_step (validate_step rt model s)
          \<and> current_step (validate_step rt model s) \<le> n
          \<and> plan_len (validate_step rt model s) = Inr n)
       \<and> (\<exists>d s'. should_continue s = Inr (d, s'))
       \<and> (\<forall>d s'. should_continue s = Inr (d, s')
             \<longrightarrow> current_step s' = current_step s \<and> plan_len s' = Inr n)"
proof (intro conjI allI impI)
  note frame = validate_step_frame [OF assms(1), of rt model]
  from frame assms(2) show "0 \<le> current_step (validate_step rt model s)" by auto
  from frame assms(3) show "current_step (validate_step rt model s) \<le> n" by auto
  from frame have "plan (validate_step rt model s) = plan s" by simp
  from plan_len_cong [OF this] assms(1) show "plan_len (validate_step rt model s) = Inr n"
    by simp
next
  from assms(1) show "\<exists>d s'. should_continue s = Inr (d, s')"
    by (rule should_continue_total)
next
  fix d s'
  assume "should_continue s = Inr (d, s')"
  then have f: "current_step s' = current_step s \<and> plan s' = plan s"
    by (rule should_continue_frame)
  then show "current_step s' = current_step s" by simp
  from f have "plan s' = plan s" by simp
  from plan_len_cong [OF this] assms(1) show "plan_len s' = Inr n"
    by simp
qed

lemma at_step_facts:
  "py_get (plan (at_step k page err)) ''steps'' (PList []) = Inr (PList login_steps)"
  "py_len (PList login_steps) = Inr 7"
  "current_step (at_step k page err) = k"
  "browser_state (at_step k page err) = page"
  "error (at_step k page err) = err"
  "steps_completed (at_step k page err) = []"
  "plan_len (at_step k page err) = Inr 7"
  by (simp_all add: at_step_def initial_state_def login_steps_def plan_len_def and_then_def)

lemma login_steps_0:
  "py_getitem (PList login_steps) (PInt 0) =
     Inr (PDict [(PStr ''step'', PInt 1), (PStr ''action'', PStr ''navigate''),
             (PStr ''target'', PStr ''https://news.ycombinator.com/login'')])"
  by (simp add: login_steps_def seq_index_def)

lemma login_steps_3: "py_getitem (PList login_steps) (PInt 3) = Inr wait_step"
  by (simp add: login_steps_def seq_index_def)

lemma login_steps_5:
  "py_getitem (PList login_steps) (PInt 5) =
     Inr (PDict [(PStr ''step'', PInt 6), (PStr ''action'', PStr ''extract''),
             (PStr ''target'', PStr ''#me'')])"
  by (simp add: login_steps_def seq_index_def)

lemma navigate_off_login:
  "action_rule (py_lower ''navigate'') t pc (py_lower ''https://news.ycombinator.com/login'') = None"
  by (simp add: action_rule_def py_lower_def lower_char_def)

lemma wait_no_rule: "action_rule (py_lower ''wait'') t pc u = None"
  by (simp add: action_rule_def py_lower_def lower_char_def)

lemma extract_no_rule: "action_rule (py_lower ''extract'') t pc u = None"
  by (simp add: action_rule_def py_lower_def lower_char_def)

lemma none_get_text:
  "exn_str (no_attribute PNone ''get'') =
     [sq] @ ''NoneType'' @ [sq] @ '' object has no attribute '' @ [sq] @ ''get'' @ [sq]"
  by (simp add: no_attribute_def)

lemma navigate_rule_none:
  "\<not> py_in ''login/index.php'' u \<Longrightarrow> action_rule ''navigate'' t pc u = None"
  by (simp add: action_rule_def)

lemma fill_rule_none:
  assumes "\<not> py_in (py_replace_char (CHR ''.'') [] (py_replace_char (CHR ''#'') [] t)) pc"
    and "\<not> py_in t pc"
  shows "action_rule ''fill'' t pc u = None"
  using assms by (simp add: action_rule_def Let_def)

lemma page_url:
  "py_get login_page ''url'' (PStr []) = Inr (PStr ''https://news.ycombinator.com/login'')"
  "py_get dashboard_page ''url'' (PStr []) = Inr (PStr ''https://news.ycombinator.com/news'')"
  by (simp_all add: login_page_def dashboard_page_def)

lemma wait_step_fields:
  "py_get wait_step ''action'' (PStr []) = Inr (PStr ''wait'')"
  "py_get wait_step ''target'' (PStr []) = Inr (PStr ''#dashboard'')"
  by (simp_all add: wait_step_def)

text \<open>
  C4 at a state of the login run: the navigate step is not validated on the login page
  of the scenario, and the transition stays within the seven steps of the plan.
\<close>

theorem step_index_invariant_witness:
  "0 \<le> current_step (validate_step plain_runtime model_down (at_step 0 login_page PNone))
   \<and> current_step (validate_step plain_runtime model_down (at_step 0 login_page PNone)) \<le> 7
   \<and> plan_len (validate_step plain_runtime model_down (at_step 0 login_page PNone)) = Inr 7"
  using step_index_invariant [of "at_step 0 login_page PNone" 7 plain_runtime model_down]
  by (simp add: at_step_facts)

text \<open>
  C10. The heuristic tier returns a success verdict or \<open>None\<close>, never a failure verdict.
  When no rule of the chain matches for the current step (so for a navigate whose URL
  lacks the login-path fragment, and for a fill whose target, cleaned or not, is not in
  the page text), it returns \<open>None\<close>; the lookup on \<open>None\<close> raises before the judge or the
  failure branch runs, whatever the model would answer, and the handler decides:
  for \<open>current_step <= 4\<close> the step index is advanced by one and nothing else changes
  (\<open>steps_completed\<close> is not extended), for \<open>current_step >= 5\<close> the error is set and the
  step index stays.
\<close>

theorem validate_step_no_verdict:
  assumes "py_get (plan s) ''steps'' (PList []) = Inr steps" and "py_len steps = Inr n"
    and "current_step s < n"
    and "py_getitem steps (PInt (current_step s)) = Inr step"
    and "py_get step ''action'' (PStr []) = Inr (PStr a)"
    and "py_get step ''target'' (PStr []) = Inr (PStr t)"
    and "py_get (browser_state s) ''url'' (PStr []) = Inr (PStr u)"
    and "action_rule (py_lower a) (py_lower t) (py_lower (py_str rt (browser_state s)))
           (py_lower u) = None"
  shows "validate_heuristic rt step (browser_state s) (error s) (current_step s) = Inr PNone
     \<and> validate_step rt model s =
         (if current_step s \<le> 4 then s\<lparr>current_step := current_step s + 1\<rparr>
          else s\<lparr>error := PStr (''Validation failed: '' @ [sq] @ ''NoneType'' @ [sq] @
                    '' object has no attribute '' @ [sq] @ ''get'' @ [sq])\<rparr>)
     \<and> (\<forall>step' page' err' k v.
            validate_heuristic rt step' page' err' k = Inr v \<longrightarrow> v = PNone \<or> (\<exists>r. v = verdict r))
     \<and> (\<forall>t' pc u'. \<not> py_in ''login/index.php'' u' \<longrightarrow> action_rule ''navigate'' t' pc u' = None)
     \<and> (\<forall>t' pc u'. \<not> py_in (py_replace_char (CHR ''.'') [] (py_replace_char (CHR ''#'') [] t')) pc
            \<and> \<not> py_in t' pc \<longrightarrow> action_rule ''fill'' t' pc u' = None)"
proof (intro conjI allI impI)
  show none: "validate_heuristic rt step (browser_state s) (error s) (current_step s) = Inr PNone"
    using assms(5-8) by (rule validate_heuristic_none)
  show "validate_step rt model s =
         (if current_step s \<le> 4 then s\<lparr>current_step := current_step s + 1\<rparr>
          else s\<lparr>error := PStr (''Validation failed: '' @ [sq] @ ''NoneType'' @ [sq] @
                    '' object has no attribute '' @ [sq] @ ''get'' @ [sq])\<rparr>)"
    using validate_step_heuristic_none [OF assms(1-4) none, of model]
    by (simp only: none_get_text)
next
  fix step' page' err' k v
  assume "validate_heuristic rt step' page' err' k = Inr v"
  then show "v = PNone \<or> (\<exists>r. v = verdict r)" by (rule validate_heuristic_result)
next
  fix t' pc u'
  assume "\<not> py_in ''login/index.php'' u'"
  then show "action_rule ''navigate'' t' pc u' = None" by (rule navigate_rule_none)
next
  fix t' pc u'
  assume "\<not> py_in (py_replace_char (CHR ''.'') [] (py_replace_char (CHR ''#'') [] t')) pc
            \<and> \<not> py_in t' pc"
  then show "action_rule ''fill'' t' pc u' = None" by (simp add: fill_rule_none)
qed

theorem validate_step_no_verdict_witness:
  "validate_step plain_runtime model_down (at_step 0 login_page PNone)
     = (at_step 0 login_page PNone)\<lparr>current_step := 1\<rparr>
   \<and> steps_completed (validate_step plain_runtime model_down (at_step 0 login_page PNone)) = []
   \<and> validate_step plain_runtime model_down (at_step 5 login_page PNone)
     = (at_step 5 login_page PNone)\<lparr>error := PStr (''Validation failed: '' @ [sq] @ ''NoneType'' @
          [sq] @ '' object has no attribute '' @ [sq] @ ''get'' @ [sq])\<rparr>"
proof -
  let ?s0 = "at_step 0 login_page PNone" and ?s5 = "at_step 5 login_page PNone"
  let ?nav = "PDict [(PStr ''step'', PInt 1), (PStr ''action'', PStr ''navigate''),
             (PStr ''target'', PStr ''https://news.ycombinator.com/login'')]"
  let ?ext = "PDict [(PStr ''step'', PInt 6), (PStr ''action'', PStr ''extract''),
             (PStr ''target'', PStr ''#me'')]"
  have nav: "py_get ?nav ''action'' (PStr []) = Inr (PStr ''navigate'')"
    "py_get ?nav ''target'' (PStr []) = Inr (PStr ''https://news.ycombinator.com/login'')"
    by simp_all
  have ext: "py_get ?ext ''action'' (PStr []) = Inr (PStr ''extract'')"
    "py_get ?ext ''target'' (PStr []) = Inr (PStr ''#me'')"
    by simp_all
  have lt: "current_step ?s0 < 7" "current_step ?s5 < 7"
    by (simp_all add: at_step_facts)
  have at0: "py_getitem (PList login_steps) (PInt (current_step ?s0)) = Inr ?nav"
    by (simp only: at_step_facts login_steps_0)
  have at5: "py_getitem (PList login_steps) (PInt (current_step ?s5)) = Inr ?ext"
    by (simp only: at_step_facts login_steps_5)
  have url0: "py_get (browser_state ?s0) ''url'' (PStr []) = Inr (PStr ''https://news.ycombinator.com/login'')"
    and url5: "py_get (browser_state ?s5) ''url'' (PStr []) = Inr (PStr ''https://news.ycombinator.com/login'')"
    by (simp_all only: at_step_facts page_url)
  note v0 = validate_step_no_verdict [OF at_step_facts(1) at_step_facts(2) lt(1) at0 nav url0
      navigate_off_login, where rt = plain_runtime and model = model_down]
  note v5 = validate_step_no_verdict [OF at_step_facts(1) at_step_facts(2) lt(2) at5 ext url5
      extract_no_rule, where rt = plain_runtime and model = model_down]
  from v0 have r0: "validate_step plain_runtime model_down ?s0 = ?s0\<lparr>current_step := 1\<rparr>"
    by (simp add: at_step_facts)
  from v5 have r5: "validate_step plain_runtime model_down ?s5
     = ?s5\<lparr>error := PStr (''Validation failed: '' @ [sq] @ ''NoneType'' @
          [sq] @ '' object has no attribute '' @ [sq] @ ''get'' @ [sq])\<rparr>"
    by (simp add: at_step_facts)
  from r0 have "steps_completed (validate_step plain_runtime model_down ?s0) = []"
    by (simp add: at_step_facts)
  with r0 r5 show ?thesis by simp
qed

text \<open>
  C6. The failure branch of \<open>validate_step\<close> is written as the claim says, but it is not
  reached: a step that the heuristic tier does not validate gives \<open>None\<close>, not a failure
  verdict, so the handler runs instead, for every runtime and every judge. At step 3
  (the wait step, on the login page) the claim expects the error to be set and the step
  index to stay at 3; the code advances to step 4 and sets no error. At step 0 with an
  error pending from the executor the claim expects the error to be cleared; the code
  advances and keeps the error.
\<close>

theorem validate_step_failure_branch:
  "validate_step rt model (at_step 3 login_page PNone)
     = (at_step 3 login_page PNone)\<lparr>current_step := 4\<rparr>
   \<and> current_step (validate_step rt model (at_step 3 login_page PNone)) = 4
   \<and> error (validate_step rt model (at_step 3 login_page PNone)) = PNone
   \<and> validate_step rt model (at_step 0 login_page (PStr ''Timeout''))
     = (at_step 0 login_page (PStr ''Timeout''))\<lparr>current_step := 1\<rparr>
   \<and> error (validate_step rt model (at_step 0 login_page (PStr ''Timeout''))) = PStr ''Timeout''"
proof -
  let ?s3 = "at_step 3 login_page PNone" and ?s0 = "at_step 0 login_page (PStr ''Timeout'')"
  let ?nav = "PDict [(PStr ''step'', PInt 1), (PStr ''action'', PStr ''navigate''),
             (PStr ''target'', PStr ''https://news.ycombinator.com/login'')]"
  have nav: "py_get ?nav ''action'' (PStr []) = Inr (PStr ''navigate'')"
    "py_get ?nav ''target'' (PStr []) = Inr (PStr ''https://news.ycombinator.com/login'')"
    by simp_all
  have lt: "current_step ?s3 < 7" "current_step ?s0 < 7"
    by (simp_all add: at_step_facts)
  have at3: "py_getitem (PList login_steps) (PInt (current_step ?s3)) = Inr wait_step"
    by (simp only: at_step_facts login_steps_3)
  have at0: "py_getitem (PList login_steps) (PInt (current_step ?s0)) = Inr ?nav"
    by (simp only: at_step_facts login_steps_0)
  have "validate_heuristic rt wait_step login_page PNone 3 = Inr PNone"
    using wait_step_fields page_url(1) wait_no_rule by (rule validate_heuristic_none)
  then have h3: "validate_heuristic rt wait_step (browser_state ?s3) (error ?s3) (current_step ?s3)
      = Inr PNone"
    by (simp only: at_step_facts)
  have "validate_heuristic rt ?nav login_page (PStr ''Timeout'') 0 = Inr PNone"
    using nav page_url(1) navigate_off_login by (rule validate_heuristic_none)
  then have h0: "validate_heuristic rt ?nav (browser_state ?s0) (error ?s0) (current_step ?s0)
      = Inr PNone"
    by (simp only: at_step_facts)
  from validate_step_heuristic_none [OF at_step_facts(1) at_step_facts(2) lt(1) at3 h3, where model = model]
  have r3: "validate_step rt model ?s3 = ?s3\<lparr>current_step := 4\<rparr>"
    by (simp add: at_step_facts)
  from validate_step_heuristic_none [OF at_step_facts(1) at_step_facts(2) lt(2) at0 h0, where model = model]
  have r0: "validate_step rt model ?s0 = ?s0\<lparr>current_step := 1\<rparr>"
    by (simp add: at_step_facts)
  from r3 r0 show ?thesis
    by (simp add: at_step_facts)
qed

text \<open>
  C7. The second pass of the heuristic tier. At step 3, for the wait step (no rule of
  the chain applies to it) and a page snapshot whose text contains the markers
  \<open>dashboard\<close>, \<open>welcome\<close> and \<open>logout\<close>, the claim expects a success verdict. The code computes
  \<open>has_success\<close> and returns \<open>None\<close>.
\<close>

theorem validate_heuristic_second_pass:
  "py_in ''dashboard'' (py_lower (py_str plain_runtime dashboard_page))
   \<and> py_in ''welcome'' (py_lower (py_str plain_runtime dashboard_page))
   \<and> py_in ''logout'' (py_lower (py_str plain_runtime dashboard_page))
   \<and> validate_heuristic plain_runtime wait_step dashboard_page PNone 3 = Inr PNone"
proof -
  have "py_in ''dashboard'' (py_lower (py_str plain_runtime dashboard_page))"
    "py_in ''welcome'' (py_lower (py_str plain_runtime dashboard_page))"
    "py_in ''logout'' (py_lower (py_str plain_runtime dashboard_page))"
    by code_simp+
  moreover have "validate_heuristic plain_runtime wait_step dashboard_page PNone 3 = Inr PNone"
    using wait_step_fields page_url(2) wait_no_rule by (rule validate_heuristic_none)
  ultimately show ?thesis by simp
qed

section \<open>Executor\<close>











end
